theory Spec2Isabelle
  imports Complex_Main "HOL-Library.Sublist"
begin

section \<open>Python values\<close>

text \<open>
  Exceptions are values.  The only thing the handlers of \<^verbatim>\<open>calc\<close> and
  \<^verbatim>\<open>load_dataset\<close> look at is whether a raised object is an instance of
  \<^verbatim>\<open>Exception\<close> (caught by \<^verbatim>\<open>except Exception\<close>) or only of
  \<^verbatim>\<open>BaseException\<close>, such as \<^verbatim>\<open>KeyboardInterrupt\<close> (caught by a bare
  \<^verbatim>\<open>except:\<close> only).  The string is the name of the class.
\<close>

datatype exc = Exception string | BaseException string

abbreviation KeyError :: exc where "KeyError \<equiv> Exception ''KeyError''"
abbreviation ValueError :: exc where "ValueError \<equiv> Exception ''ValueError''"
abbreviation TypeError :: exc where "TypeError \<equiv> Exception ''TypeError''"
abbreviation AttributeError :: exc where "AttributeError \<equiv> Exception ''AttributeError''"
abbreviation UnboundLocalError :: exc where "UnboundLocalError \<equiv> Exception ''UnboundLocalError''"

definition bind_exc :: "exc + 'a \<Rightarrow> ('a \<Rightarrow> exc + 'b) \<Rightarrow> exc + 'b" where
  "bind_exc m f = (case m of Inl e \<Rightarrow> Inl e | Inr x \<Rightarrow> f x)"

text \<open>
  A float is an exact real or one of the three IEEE specials.  The rounding error of
  float arithmetic and the sign of zero are not modelled; what is modelled is that a
  division by zero does not raise in numpy but yields \<^verbatim>\<open>inf\<close> or \<^verbatim>\<open>nan\<close>.  The one
  operation whose precision is modelled is \<^verbatim>\<open>arr.round\<close>, further down.
\<close>

datatype npfloat = Fin real | PInf | NInf | NaN

fun fneg :: "npfloat \<Rightarrow> npfloat" where
  "fneg (Fin a) = Fin (- a)"
| "fneg PInf = NInf"
| "fneg NInf = PInf"
| "fneg NaN = NaN"

fun fadd :: "npfloat \<Rightarrow> npfloat \<Rightarrow> npfloat" where
  "fadd (Fin a) (Fin b) = Fin (a + b)"
| "fadd NaN _ = NaN"
| "fadd _ NaN = NaN"
| "fadd PInf NInf = NaN"
| "fadd NInf PInf = NaN"
| "fadd PInf _ = PInf"
| "fadd _ PInf = PInf"
| "fadd NInf _ = NInf"
| "fadd _ NInf = NInf"

definition fsub :: "npfloat \<Rightarrow> npfloat \<Rightarrow> npfloat" where
  "fsub a b = fadd a (fneg b)"

definition inf_signed :: "bool \<Rightarrow> npfloat" where
  "inf_signed positive = (if positive then PInf else NInf)"

fun fmul :: "npfloat \<Rightarrow> npfloat \<Rightarrow> npfloat" where
  "fmul (Fin a) (Fin b) = Fin (a * b)"
| "fmul NaN _ = NaN"
| "fmul _ NaN = NaN"
| "fmul (Fin a) PInf = (if a = 0 then NaN else inf_signed (a > 0))"
| "fmul (Fin a) NInf = (if a = 0 then NaN else inf_signed (a < 0))"
| "fmul PInf (Fin b) = (if b = 0 then NaN else inf_signed (b > 0))"
| "fmul NInf (Fin b) = (if b = 0 then NaN else inf_signed (b < 0))"
| "fmul PInf PInf = PInf"
| "fmul NInf NInf = PInf"
| "fmul PInf NInf = NInf"
| "fmul NInf PInf = NInf"

fun fdiv :: "npfloat \<Rightarrow> npfloat \<Rightarrow> npfloat" where
  "fdiv (Fin a) (Fin b) =
     (if b = 0 then (if a = 0 then NaN else inf_signed (a > 0)) else Fin (a / b))"
| "fdiv NaN _ = NaN"
| "fdiv _ NaN = NaN"
| "fdiv (Fin a) _ = Fin 0"
| "fdiv PInf (Fin b) = inf_signed (b \<ge> 0)"
| "fdiv NInf (Fin b) = inf_signed (b < 0)"
| "fdiv PInf PInf = NaN"
| "fdiv PInf NInf = NaN"
| "fdiv NInf PInf = NaN"
| "fdiv NInf NInf = NaN"

fun fge :: "npfloat \<Rightarrow> npfloat \<Rightarrow> bool" where
  "fge (Fin a) (Fin b) = (a \<ge> b)"
| "fge NaN _ = False"
| "fge _ NaN = False"
| "fge PInf _ = True"
| "fge _ NInf = True"
| "fge (Fin a) PInf = False"
| "fge NInf (Fin b) = False"
| "fge NInf PInf = False"

definition fgt :: "npfloat \<Rightarrow> npfloat \<Rightarrow> bool" where
  "fgt a b = (fge a b \<and> a \<noteq> b)"

definition flt :: "npfloat \<Rightarrow> npfloat \<Rightarrow> bool" where
  "flt a b = fgt b a"

text \<open>\<^verbatim>\<open>np.maximum\<close> and \<^verbatim>\<open>np.minimum\<close> propagate \<^verbatim>\<open>nan\<close>.\<close>

definition fmax :: "npfloat \<Rightarrow> npfloat \<Rightarrow> npfloat" where
  "fmax a b = (if a = NaN \<or> b = NaN then NaN else if fge a b then a else b)"

definition fmin :: "npfloat \<Rightarrow> npfloat \<Rightarrow> npfloat" where
  "fmin a b = (if a = NaN \<or> b = NaN then NaN else if fge a b then b else a)"

text \<open>
  The values that flow through \<^verbatim>\<open>calc\<close> and \<^verbatim>\<open>map_to\<close>: a one-dimensional numpy
  array of one dtype, an \<^verbatim>\<open>EnumArray\<close> (the names of the possible values and one index
  per unit), or \<^verbatim>\<open>None\<close>.
\<close>

datatype pyval =
    FloatArr "npfloat list"
  | BoolArr "bool list"
  | IntArr "int list"
  | StrArr "string list"
  | EnumArr "string list" "nat list"
  | PyNone

text \<open>numpy broadcasting of two one-dimensional arrays.\<close>

definition broadcast2 :: "('a \<Rightarrow> 'b \<Rightarrow> 'c) \<Rightarrow> 'a list \<Rightarrow> 'b list \<Rightarrow> exc + 'c list" where
  "broadcast2 f xs ys =
     (if length xs = length ys then Inr (map2 f xs ys)
      else if length xs = 1 then Inr (map (f (hd xs)) ys)
      else if length ys = 1 then Inr (map (\<lambda>x. f x (hd ys)) xs)
      else Inl ValueError)"

definition of_bool_f :: "bool \<Rightarrow> npfloat" where
  "of_bool_f b = Fin (if b then 1 else 0)"

text \<open>
  The float view of an array, as \<^verbatim>\<open>astype(float)\<close> gives it.  Arithmetic and
  comparison promote their operands the same way (integer results are held as floats of
  the same value); they reject strings, \<^verbatim>\<open>None\<close> and an \<^verbatim>\<open>EnumArray\<close>, which forbids
  every operator but \<^verbatim>\<open>==\<close> and \<^verbatim>\<open>!=\<close>.  A Python scalar operand is an array of
  length one, which broadcasts.
\<close>

fun as_floats :: "pyval \<Rightarrow> exc + npfloat list" where
  "as_floats (FloatArr xs) = Inr xs"
| "as_floats (BoolArr bs) = Inr (map of_bool_f bs)"
| "as_floats (IntArr ns) = Inr (map (\<lambda>n. Fin (real_of_int n)) ns)"
| "as_floats (EnumArr names idx) = Inr (map (\<lambda>n. Fin (real n)) idx)"
| "as_floats (StrArr ss) = Inl ValueError"
| "as_floats PyNone = Inl TypeError"

fun operand :: "pyval \<Rightarrow> exc + npfloat list" where
  "operand (EnumArr names idx) = Inl TypeError"
| "operand (StrArr ss) = Inl TypeError"
| "operand PyNone = Inl TypeError"
| "operand a = as_floats a"

definition np_arith :: "(npfloat \<Rightarrow> npfloat \<Rightarrow> npfloat) \<Rightarrow> pyval \<Rightarrow> pyval \<Rightarrow> exc + pyval" where
  "np_arith f a b =
     bind_exc (operand a) (\<lambda>xs. bind_exc (operand b) (\<lambda>ys.
     bind_exc (broadcast2 f xs ys) (\<lambda>zs. Inr (FloatArr zs))))"

definition np_compare :: "(npfloat \<Rightarrow> npfloat \<Rightarrow> bool) \<Rightarrow> pyval \<Rightarrow> pyval \<Rightarrow> exc + pyval" where
  "np_compare f a b =
     bind_exc (operand a) (\<lambda>xs. bind_exc (operand b) (\<lambda>ys.
     bind_exc (broadcast2 f xs ys) (\<lambda>zs. Inr (BoolArr zs))))"

definition np_divide :: "pyval \<Rightarrow> pyval \<Rightarrow> exc + pyval" where
  "np_divide a b = np_arith fdiv a b"

section \<open>The simulation (openfisca-core objects as parameters)\<close>

text \<open>
  The populations, the variable registry and the three period accessors belong to
  openfisca-core; the model takes them as fields of the simulation.  A group population
  offers the reductions that \<^verbatim>\<open>map_to\<close> selects by name, the projection to persons and
  the number of persons of each group.
\<close>

record group_population =
  sum_p :: "pyval \<Rightarrow> exc + pyval"
  any_p :: "pyval \<Rightarrow> exc + pyval"
  min_p :: "pyval \<Rightarrow> exc + pyval"
  max_p :: "pyval \<Rightarrow> exc + pyval"
  all_p :: "pyval \<Rightarrow> exc + pyval"
  value_from_first_person :: "pyval \<Rightarrow> exc + pyval"
  project :: "pyval \<Rightarrow> exc + pyval"
  nb_persons :: "exc + pyval"

datatype population = PersonPopulation | GroupPopulation group_population

datatype value_type = VFloat | VBool | VInt | VStr | VEnum | VDate

record variable =
  value_type :: value_type
  entity_key :: string

datatype period = Year int | PeriodStr string

record simulation =
  variables :: "string \<rightharpoonup> variable"
  benunit_pop :: group_population
  household_pop :: group_population
  calculate :: "string \<Rightarrow> period \<Rightarrow> exc + pyval"
  calculate_add :: "string \<Rightarrow> period \<Rightarrow> exc + pyval"
  calculate_divide :: "string \<Rightarrow> period \<Rightarrow> exc + pyval"

text \<open>
  \<^verbatim>\<open>simulation.populations\<close> is the dict that \<^verbatim>\<open>create_entities\<close> builds from the
  three entities of the system: person, benunit and household (the keys of
  \<^verbatim>\<open>entity_weights\<close> and of \<^verbatim>\<open>load_dataset\<close>).  Any other key raises KeyError.
\<close>

definition populations :: "simulation \<Rightarrow> string \<Rightarrow> exc + population" where
  "populations sim key =
     (if key = ''person'' then Inr PersonPopulation
      else if key = ''benunit'' then Inr (GroupPopulation (benunit_pop sim))
      else if key = ''household'' then Inr (GroupPopulation (household_pop sim))
      else Inl KeyError)"

text \<open>\<^verbatim>\<open>pop.__getattribute__(name)\<close> for the names that \<^verbatim>\<open>map_to\<close> lets through.\<close>

definition getattribute :: "population \<Rightarrow> string \<Rightarrow> exc + (pyval \<Rightarrow> exc + pyval)" where
  "getattribute pop name =
     (case pop of
        PersonPopulation \<Rightarrow> Inl AttributeError
      | GroupPopulation g \<Rightarrow>
          if name = ''sum'' then Inr (sum_p g)
          else if name = ''any'' then Inr (any_p g)
          else if name = ''min'' then Inr (min_p g)
          else if name = ''max'' then Inr (max_p g)
          else if name = ''all'' then Inr (all_p g)
          else if name = ''value_from_first_person'' then Inr (value_from_first_person g)
          else Inl AttributeError)"

definition pop_project :: "population \<Rightarrow> pyval \<Rightarrow> exc + pyval" where
  "pop_project pop arr =
     (case pop of PersonPopulation \<Rightarrow> Inl AttributeError | GroupPopulation g \<Rightarrow> project g arr)"

definition pop_nb_persons :: "population \<Rightarrow> exc + pyval" where
  "pop_nb_persons pop =
     (case pop of PersonPopulation \<Rightarrow> Inl AttributeError | GroupPopulation g \<Rightarrow> nb_persons g)"

section \<open>Microsimulation\<close>

text \<open>The key of \<^verbatim>\<open>bonus_sims\<close>: \<^verbatim>\<open>(wrt, delta, percent, "same-entity")\<close>.\<close>

type_synonym config = "string \<times> real \<times> bool \<times> string"

datatype microsimulation = Microsimulation
  (simulation: simulation)
  (year: int)
  (entity_weights: "string \<rightharpoonup> pyval")
  (bonus_sims: "(config \<times> microsimulation) list")

text \<open>Truthiness of an optional string: \<^verbatim>\<open>None\<close> and \<^verbatim>\<open>""\<close> are false.\<close>

definition truthy :: "string option \<Rightarrow> bool" where
  "truthy how = (case how of None \<Rightarrow> False | Some s \<Rightarrow> s \<noteq> [])"

definition allowed_hows :: "string list" where
  "allowed_hows = [''sum'', ''any'', ''min'', ''max'', ''all'', ''value_from_first_person'']"

definition groups :: "string list" where
  "groups = [''benunit'', ''household'']"

function map_to :: "microsimulation \<Rightarrow> pyval \<Rightarrow> string \<Rightarrow> string \<Rightarrow> string option \<Rightarrow> exc + pyval" where
  "map_to self arr entity target_entity how =
     (case populations (simulation self) entity of
        Inl e \<Rightarrow> Inl e
      | Inr entity_pop \<Rightarrow>
         (case populations (simulation self) target_entity of
            Inl e \<Rightarrow> Inl e
          | Inr target_pop \<Rightarrow>
             (if entity = ''person'' \<and> target_entity \<in> set groups then
                (if truthy how \<and> the how \<notin> set allowed_hows then Inl ValueError
                 else bind_exc (getattribute target_pop (if truthy how then the how else ''sum''))
                        (\<lambda>f. f arr))
              else if entity \<in> set groups \<and> target_entity = ''person'' then
                (if \<not> truthy how then pop_project entity_pop arr
                 else if how = Some ''mean'' then
                   bind_exc (pop_nb_persons entity_pop) (\<lambda>n.
                   bind_exc (np_divide arr n) (\<lambda>q. pop_project entity_pop q))
                 else Inr PyNone)
              else if entity = target_entity then Inr arr
              else
                bind_exc (map_to self arr entity ''person'' (Some ''mean'')) (\<lambda>a.
                  map_to self a ''person'' target_entity (Some ''sum'')))))"
  by pat_completeness auto
termination
  by (relation "measure (\<lambda>(self, arr, entity, target_entity, how).
        if entity \<in> set groups \<and> target_entity \<in> set groups \<and> entity \<noteq> target_entity
        then 1 else 0)")
     (auto simp: populations_def groups_def split: if_splits)

declare map_to.simps [simp del]

text \<open>\<^verbatim>\<open>arr >= 52\<close>, elementwise against the scalar.\<close>

definition np_ge :: "pyval \<Rightarrow> int \<Rightarrow> exc + pyval" where
  "np_ge arr k = np_compare fge arr (IntArr [k])"

text \<open>
  \<^verbatim>\<open>arr.round(2)\<close>.  The array of a float variable has dtype float32, and numpy rounds
  in the dtype of the array: it multiplies by the power of ten, rounds to the nearest
  integer with ties to even, and divides by the power of ten, each step giving the
  nearest float32.  \<^verbatim>\<open>f32\<close> is the nearest float32 of a real, ties to even: 24
  significant bits at the binary exponent of the number (not below the least normal
  exponent), and beyond the largest float32 \<^verbatim>\<open>inf\<close>.  The exponent is found by halving
  or doubling.
\<close>

definition rint :: "real \<Rightarrow> real" where
  "rint x =
     (let f = \<lfloor>x\<rfloor>; d = x - of_int f
      in of_int (if d < 1 / 2 then f else if d > 1 / 2 then f + 1
                 else if even f then f else f + 1))"

definition pow2 :: "int \<Rightarrow> real" where
  "pow2 e = (if 0 \<le> e then 2 ^ nat e else 1 / 2 ^ nat (- e))"

fun binade :: "nat \<Rightarrow> real \<Rightarrow> int" where
  "binade 0 x = 0"
| "binade (Suc fuel) x =
     (if 2 \<le> \<bar>x\<bar> then binade fuel (x / 2) + 1
      else if \<bar>x\<bar> < 1 then binade fuel (2 * x) - 1
      else 0)"

definition exponent32 :: "real \<Rightarrow> int" where
  "exponent32 x = (if x = 0 then - 126 else max (- 126) (binade 256 x))"

definition f32 :: "real \<Rightarrow> npfloat" where
  "f32 x =
     (let q = pow2 (exponent32 x - 23); m = rint (x / q) * q
      in if pow2 128 \<le> \<bar>m\<bar> then inf_signed (0 < x) else Fin m)"

fun fround :: "nat \<Rightarrow> npfloat \<Rightarrow> npfloat" where
  "fround dp (Fin x) =
     (case f32 (x * 10 ^ dp) of Fin y \<Rightarrow> f32 (rint y / 10 ^ dp) | v \<Rightarrow> v)"
| "fround dp v = v"

fun np_round :: "pyval \<Rightarrow> nat \<Rightarrow> exc + pyval" where
  "np_round (FloatArr xs) dp = Inr (FloatArr (map (fround dp) xs))"
| "np_round (IntArr ns) dp = Inr (IntArr ns)"
| "np_round (BoolArr bs) dp = Inr (FloatArr (map of_bool_f bs))"
| "np_round (EnumArr names idx) dp = Inr (EnumArr names idx)"
| "np_round (StrArr ss) dp = Inl TypeError"
| "np_round PyNone dp = Inl AttributeError"

text \<open>\<^verbatim>\<open>arr.decode_to_str()\<close> exists on an \<^verbatim>\<open>EnumArray\<close> only.\<close>

fun decode_to_str :: "pyval \<Rightarrow> exc + pyval" where
  "decode_to_str (EnumArr names idx) =
     (if list_all (\<lambda>i. i < length names) idx then Inr (StrArr (map (\<lambda>i. names ! i) idx))
      else Inl (Exception ''IndexError''))"
| "decode_to_str v = Inl AttributeError"

text \<open>
  The three attempts of \<^verbatim>\<open>calc\<close> (lines 75 to 87).  The local \<^verbatim>\<open>var_metadata\<close> is
  bound exactly when the lookup in \<^verbatim>\<open>variables\<close> succeeded; reading it unbound raises
  UnboundLocalError, inside the second \<^verbatim>\<open>try\<close> as anywhere else.
\<close>

definition direct_attempt :: "simulation \<Rightarrow> string \<Rightarrow> period \<Rightarrow> exc + pyval" where
  "direct_attempt sim var period =
     (case variables sim var of
        None \<Rightarrow> Inl KeyError
      | Some var_metadata \<Rightarrow> calculate sim var period)"

definition sum_attempt :: "simulation \<Rightarrow> string \<Rightarrow> period \<Rightarrow> exc + pyval" where
  "sum_attempt sim var period =
     bind_exc (calculate_add sim var period) (\<lambda>arr.
       case variables sim var of
         None \<Rightarrow> Inl UnboundLocalError
       | Some var_metadata \<Rightarrow>
           if value_type var_metadata = VBool then np_ge arr 52 else Inr arr)"

definition resolve :: "simulation \<Rightarrow> string \<Rightarrow> period \<Rightarrow> exc + pyval" where
  "resolve sim var period =
     (case direct_attempt sim var period of
        Inr arr \<Rightarrow> Inr arr
      | Inl (BaseException n) \<Rightarrow> Inl (BaseException n)
      | Inl (Exception n) \<Rightarrow>
         (case sum_attempt sim var period of
            Inr arr \<Rightarrow> Inr arr
          | Inl e2 \<Rightarrow>
             (case calculate_divide sim var period of
                Inr arr \<Rightarrow> Inr arr
              | Inl e3 \<Rightarrow> Inl (Exception n))))"

text \<open>What \<^verbatim>\<open>calc\<close> returns: the raw array, or a \<^verbatim>\<open>MicroSeries\<close> of values and weights.\<close>

datatype result = Raw pyval | MicroSeries pyval pyval

definition weights_of :: "microsimulation \<Rightarrow> string \<Rightarrow> exc + pyval" where
  "weights_of self entity =
     (case entity_weights self entity of None \<Rightarrow> Inl KeyError | Some w \<Rightarrow> Inr w)"

text \<open>Lines 88 to 91: the post-processing by value type.\<close>

definition postprocess :: "simulation \<Rightarrow> string \<Rightarrow> pyval \<Rightarrow> exc + (variable \<times> pyval)" where
  "postprocess sim var arr =
     (case variables sim var of
        None \<Rightarrow> Inl UnboundLocalError
      | Some var_metadata \<Rightarrow>
          bind_exc (if value_type var_metadata = VFloat then np_round arr 2 else Inr arr) (\<lambda>arr.
          bind_exc (if value_type var_metadata = VEnum then decode_to_str arr else Inr arr) (\<lambda>arr.
            Inr (var_metadata, arr))))"

text \<open>Lines 92 to 99: the raw array, or the entity transform and the weights.\<close>

definition deliver ::
  "microsimulation \<Rightarrow> variable \<Rightarrow> pyval \<Rightarrow> bool \<Rightarrow> string option \<Rightarrow> string option \<Rightarrow> exc + result" where
  "deliver self var_metadata arr weighted map_to_arg how =
     (if \<not> weighted then Inr (Raw arr)
      else
        let entity = entity_key var_metadata in
        if truthy map_to_arg then
          bind_exc (map_to self arr entity (the map_to_arg) how) (\<lambda>arr.
          bind_exc (weights_of self (the map_to_arg)) (\<lambda>w. Inr (MicroSeries arr w)))
        else bind_exc (weights_of self entity) (\<lambda>w. Inr (MicroSeries arr w)))"

definition finish ::
  "microsimulation \<Rightarrow> string \<Rightarrow> bool \<Rightarrow> string option \<Rightarrow> string option \<Rightarrow> pyval \<Rightarrow> exc + result" where
  "finish self var weighted map_to_arg how arr =
     bind_exc (postprocess (simulation self) var arr) (\<lambda>(var_metadata, arr).
       deliver self var_metadata arr weighted map_to_arg how)"

definition period_or_year :: "microsimulation \<Rightarrow> period option \<Rightarrow> period" where
  "period_or_year self period = (case period of None \<Rightarrow> Year (year self) | Some p \<Rightarrow> p)"

text \<open>
  \<^verbatim>\<open>calc\<close>.  The parameter \<^verbatim>\<open>dp\<close> is accepted and never read: the rounding is at the
  literal 2.
\<close>

definition calc ::
  "microsimulation \<Rightarrow> string \<Rightarrow> period option \<Rightarrow> bool \<Rightarrow> string option \<Rightarrow> string option \<Rightarrow> int
     \<Rightarrow> exc + result" where
  "calc self var period weighted map_to_arg how dp =
     (let period = period_or_year self period in
      bind_exc (resolve (simulation self) var period) (finish self var weighted map_to_arg how))"

section \<open>Loading the dataset\<close>

text \<open>
  \<^verbatim>\<open>load_dataset\<close>, lines 157 to 170.  The dataset is a dict of dicts, variable to period
  to values, in insertion order.  \<^verbatim>\<open>set_input\<close> belongs to openfisca-core and is a
  parameter: it returns the model with the input stored, or raises, and a call that
  raises leaves the model as it was.  The bare \<^verbatim>\<open>except:\<close> catches every exception.
  Building the model (lines 127 to 156) is a parameter too.
\<close>

type_synonym dataset = "(string \<times> (string \<times> pyval) list) list"

fun str_nat :: "nat \<Rightarrow> string" where
  "str_nat n =
     (if n < 10 then [char_of (48 + n)]
      else str_nat (n div 10) @ [char_of (48 + n mod 10)])"

declare str_nat.simps [simp del]

fun set_periods ::
  "('m \<Rightarrow> string \<Rightarrow> string \<Rightarrow> pyval \<Rightarrow> exc + 'm) \<Rightarrow> string \<Rightarrow> (string \<times> pyval) list
     \<Rightarrow> 'm \<times> string list \<Rightarrow> 'm \<times> string list" where
  "set_periods set_input variable [] (model, skipped) = (model, skipped)"
| "set_periods set_input variable ((period, values) # rest) (model, skipped) =
     (case set_input model variable period values of
        Inr model' \<Rightarrow> set_periods set_input variable rest (model', skipped)
      | Inl e \<Rightarrow> set_periods set_input variable rest (model, skipped @ [variable]))"

fun set_variables ::
  "('m \<Rightarrow> string \<Rightarrow> string \<Rightarrow> pyval \<Rightarrow> exc + 'm) \<Rightarrow> dataset
     \<Rightarrow> 'm \<times> string list \<Rightarrow> 'm \<times> string list" where
  "set_variables set_input [] st = st"
| "set_variables set_input ((variable, periods) # rest) st =
     set_variables set_input rest (set_periods set_input variable periods st)"

definition incomplete_warning :: "string list \<Rightarrow> string" where
  "incomplete_warning skipped =
     ''Incomplete initialisation: skipped '' @ str_nat (length skipped) @ '' variables:''"

text \<open>The result: the simulation that \<^verbatim>\<open>self.simulation\<close> is set to, and the warnings
  emitted.\<close>

definition load_dataset ::
  "(dataset \<Rightarrow> exc + 'm) \<Rightarrow> ('m \<Rightarrow> string \<Rightarrow> string \<Rightarrow> pyval \<Rightarrow> exc + 'm) \<Rightarrow> dataset
     \<Rightarrow> exc + ('m \<times> string list)" where
  "load_dataset build set_input data =
     bind_exc (build data) (\<lambda>model.
       let (model, skipped) = set_variables set_input data (model, [])
       in Inr (model, if skipped \<noteq> [] then [incomplete_warning skipped] else []))"

section \<open>Formulas\<close>

text \<open>
  A formula reads variables of its population, parameters at a period, and helpers of
  the country package; they are the fields of its environment.  A parameter node is a
  leaf value or a mapping from names to nodes; reading a child that is not there
  raises.
\<close>

datatype param = Leaf npfloat | Node "string \<Rightarrow> param option"

fun child :: "param \<Rightarrow> string \<Rightarrow> exc + param" where
  "child (Leaf v) name = Inl AttributeError"
| "child (Node children) name =
     (case children name of None \<Rightarrow> Inl (Exception ''ParameterNotFound'') | Some p \<Rightarrow> Inr p)"

fun path :: "param \<Rightarrow> string list \<Rightarrow> exc + param" where
  "path p [] = Inr p"
| "path p (name # names) = bind_exc (child p name) (\<lambda>q. path q names)"

text \<open>A parameter used as an operand: a leaf is a scalar.\<close>

fun scalar :: "param \<Rightarrow> exc + pyval" where
  "scalar (Leaf v) = Inr (FloatArr [v])"
| "scalar (Node children) = Inl TypeError"

text \<open>
  \<^verbatim>\<open>|\<close> on boolean operands is the elementwise disjunction; with an integer operand it
  is the bitwise or of the integers; other operands are rejected.
\<close>

fun as_ints :: "pyval \<Rightarrow> exc + int list" where
  "as_ints (BoolArr bs) = Inr (map (\<lambda>b. if b then 1 else 0) bs)"
| "as_ints (IntArr ns) = Inr ns"
| "as_ints v = Inl TypeError"

definition np_or :: "pyval \<Rightarrow> pyval \<Rightarrow> exc + pyval" where
  "np_or a b =
     (case (a, b) of
        (BoolArr xs, BoolArr ys) \<Rightarrow>
          bind_exc (broadcast2 (\<or>) xs ys) (\<lambda>zs. Inr (BoolArr zs))
      | _ \<Rightarrow>
          bind_exc (as_ints a) (\<lambda>xs. bind_exc (as_ints b) (\<lambda>ys.
          bind_exc (broadcast2 (\<lambda>x y. or x y) xs ys) (\<lambda>zs. Inr (IntArr zs)))))"

text \<open>\<^verbatim>\<open>where(cond, a, b)\<close>: both branches are arrays already computed.\<close>

definition np_where :: "pyval \<Rightarrow> pyval \<Rightarrow> pyval \<Rightarrow> exc + pyval" where
  "np_where cond a b =
     (case cond of
        BoolArr cs \<Rightarrow>
          bind_exc (operand a) (\<lambda>xs. bind_exc (operand b) (\<lambda>ys.
          bind_exc (broadcast2 Pair xs ys) (\<lambda>ps.
          bind_exc (broadcast2 (\<lambda>c (x, y). if c then x else y) cs ps) (\<lambda>zs.
            Inr (FloatArr zs)))))
      | _ \<Rightarrow> Inl TypeError)"

record formula_env =
  call :: "string \<Rightarrow> period \<Rightarrow> exc + pyval"
  parameters :: "period \<Rightarrow> exc + param"
  aggr :: "period \<Rightarrow> string list \<Rightarrow> exc + pyval"
  random :: "exc + pyval"
  household_sum :: "pyval \<Rightarrow> exc + pyval"

text \<open>
  \<^verbatim>\<open>would_claim_PC.formula\<close>.  \<^verbatim>\<open>call env\<close> is \<^verbatim>\<open>benunit(name, period)\<close>,
  \<^verbatim>\<open>aggr env\<close> is \<^verbatim>\<open>aggr(benunit, period, names)\<close> and \<^verbatim>\<open>random env\<close> is
  \<^verbatim>\<open>random(benunit)\<close>.  The literal \<^verbatim>\<open>True\<close> is a scalar operand.
\<close>

definition would_claim_PC :: "formula_env \<Rightarrow> period \<Rightarrow> exc + pyval" where
  "would_claim_PC benunit period =
     bind_exc (aggr benunit period [''pension_credit_reported'']) (\<lambda>amount.
     bind_exc (np_compare fgt amount (IntArr [0])) (\<lambda>reported_pc.
     bind_exc (parameters benunit period) (\<lambda>root.
     bind_exc (path root [''benefit'', ''pension_credit'', ''takeup'']) (\<lambda>takeup.
     bind_exc (random benunit) (\<lambda>draw.
     bind_exc (scalar takeup) (\<lambda>takeup_rate.
     bind_exc (np_compare flt draw takeup_rate) (\<lambda>imputed_takeup.
     bind_exc (call benunit ''claims_all_entitled_benefits'' period) (\<lambda>claims.
     bind_exc (np_or (BoolArr [True]) claims) (\<lambda>r1.
     bind_exc (np_or r1 imputed_takeup) (\<lambda>r2.
       np_or r2 reported_pc))))))))))"

text \<open>
  \<^verbatim>\<open>bi_household_phaseout.formula\<close>, in two parts: the reduction factor (lines 38 to
  57) and the product with the remaining basic income (line 58).  \<^verbatim>\<open>call env\<close> is
  \<^verbatim>\<open>person(name, period)\<close> and \<^verbatim>\<open>household_sum env\<close> is \<^verbatim>\<open>person.household.sum\<close>,
  the household total given to each of its persons.
\<close>

definition remaining_bi :: "formula_env \<Rightarrow> period \<Rightarrow> exc + pyval" where
  "remaining_bi person period =
     bind_exc (call person ''bi_maximum'' period) (\<lambda>max_bi.
     bind_exc (call person ''bi_individual_phaseout'' period) (\<lambda>individual.
       np_arith fsub max_bi individual))"

definition percent_reduction :: "formula_env \<Rightarrow> period \<Rightarrow> exc + (pyval \<times> pyval)" where
  "percent_reduction person period =
     bind_exc (call person ''total_income'' period) (\<lambda>income.
     bind_exc (household_sum person income) (\<lambda>household_income.
     bind_exc (parameters person period) (\<lambda>root.
     bind_exc (path root [''contrib'', ''ubi_center'', ''basic_income'']) (\<lambda>bi.
     bind_exc (remaining_bi person period) (\<lambda>remaining_bi.
     bind_exc (household_sum person remaining_bi) (\<lambda>household_bi.
     bind_exc (path bi [''phase_out'', ''household'', ''threshold'']) (\<lambda>threshold.
     bind_exc (scalar threshold) (\<lambda>threshold.
     bind_exc (np_arith fsub household_income threshold) (\<lambda>over.
     bind_exc (np_arith fmax over (IntArr [0])) (\<lambda>income_over_threshold.
     bind_exc (path bi [''phase_out'', ''household'', ''rate'']) (\<lambda>rate.
     bind_exc (scalar rate) (\<lambda>rate.
     bind_exc (np_arith fmul rate income_over_threshold) (\<lambda>uncapped_deduction.
     bind_exc (np_arith fmin household_bi uncapped_deduction) (\<lambda>capped_deduction.
     bind_exc (np_compare fgt household_bi (IntArr [0])) (\<lambda>positive.
     bind_exc (np_divide capped_deduction household_bi) (\<lambda>quotient.
     bind_exc (np_where positive quotient (IntArr [0])) (\<lambda>percent_reduction.
       Inr (percent_reduction, remaining_bi))))))))))))))))))"

definition bi_household_phaseout :: "formula_env \<Rightarrow> period \<Rightarrow> exc + pyval" where
  "bi_household_phaseout person period =
     bind_exc (percent_reduction person period) (\<lambda>(percent_reduction, remaining_bi).
       np_arith fmul percent_reduction remaining_bi)"

section \<open>Derivatives\<close>

text \<open>
  \<^verbatim>\<open>deriv\<close>, the branch for a target and a source variable of the same entity (lines
  189 to 229).  A \<^verbatim>\<open>MicroSeries\<close> operation aligns its operands on their index, here the
  positions, and fills what only one operand has with \<^verbatim>\<open>nan\<close>.

  When the configuration is not in \<^verbatim>\<open>bonus_sims\<close> the sibling is to be built by
  \<^verbatim>\<open>Microsimulation(..., mode=self.mode, year=self.year, input_year=self.input_year)\<close>.
  No attribute \<^verbatim>\<open>mode\<close> is ever set on a \<^verbatim>\<open>Microsimulation\<close> (the constructor sets
  \<^verbatim>\<open>dataset\<close>, \<^verbatim>\<open>year\<close>, \<^verbatim>\<open>reforms\<close>, \<^verbatim>\<open>system\<close>, \<^verbatim>\<open>relations\<close>, \<^verbatim>\<open>simulation\<close>,
  \<^verbatim>\<open>entity_weights\<close> and \<^verbatim>\<open>bonus_sims\<close>), so evaluating the argument \<^verbatim>\<open>self.mode\<close>
  raises AttributeError before the constructor is entered.  The branch for a group
  target and a person source (lines 230 to 291) is a parameter of the model.
\<close>

fun align :: "npfloat list \<Rightarrow> npfloat list \<Rightarrow> (npfloat \<times> npfloat) list" where
  "align [] [] = []"
| "align (x # xs) [] = (x, NaN) # align xs []"
| "align [] (y # ys) = (NaN, y) # align [] ys"
| "align (x # xs) (y # ys) = (x, y) # align xs ys"

definition astype_float :: "result \<Rightarrow> exc + result" where
  "astype_float r =
     (case r of
        Raw v \<Rightarrow> bind_exc (as_floats v) (\<lambda>xs. Inr (Raw (FloatArr xs)))
      | MicroSeries v w \<Rightarrow> bind_exc (as_floats v) (\<lambda>xs. Inr (MicroSeries (FloatArr xs) w)))"

fun values_of :: "result \<Rightarrow> pyval" where
  "values_of (Raw v) = v"
| "values_of (MicroSeries v w) = v"

fun with_values :: "result \<Rightarrow> pyval \<Rightarrow> result" where
  "with_values (Raw v) v' = Raw v'"
| "with_values (MicroSeries v w) v' = MicroSeries v' w"

definition series_op :: "(npfloat \<Rightarrow> npfloat \<Rightarrow> npfloat) \<Rightarrow> result \<Rightarrow> result \<Rightarrow> exc + result" where
  "series_op f a b =
     bind_exc (operand (values_of a)) (\<lambda>xs. bind_exc (operand (values_of b)) (\<lambda>ys.
       Inr (with_values a (FloatArr (map (\<lambda>(x, y). f x y) (align xs ys))))))"

definition increase :: "microsimulation \<Rightarrow> microsimulation \<Rightarrow> string \<Rightarrow> exc + result" where
  "increase bonus_sim self name =
     bind_exc (calc bonus_sim name None True None None 2) (\<lambda>b.
     bind_exc (astype_float b) (\<lambda>b.
     bind_exc (calc self name None True None None 2) (\<lambda>s.
     bind_exc (astype_float s) (\<lambda>s. series_op fsub b s))))"

definition deriv ::
  "(microsimulation \<Rightarrow> string \<Rightarrow> string \<Rightarrow> real \<Rightarrow> bool \<Rightarrow> exc + result)
     \<Rightarrow> microsimulation \<Rightarrow> string \<Rightarrow> string \<Rightarrow> real \<Rightarrow> bool \<Rightarrow> exc + result" where
  "deriv group_branch self target wrt delta percent =
     (case variables (simulation self) target of
        None \<Rightarrow> Inl KeyError
      | Some target_variable \<Rightarrow>
         (case variables (simulation self) wrt of
            None \<Rightarrow> Inl KeyError
          | Some wrt_variable \<Rightarrow>
             (let target_entity = entity_key target_variable;
                  wrt_entity = entity_key wrt_variable
              in if target_entity = wrt_entity then
                   (case map_of (bonus_sims self) (wrt, delta, percent, ''same-entity'') of
                      None \<Rightarrow> Inl AttributeError
                    | Some bonus_sim \<Rightarrow>
                        bind_exc (increase bonus_sim self wrt) (\<lambda>bonus_increase.
                        bind_exc (increase bonus_sim self target) (\<lambda>target_increase.
                          series_op fdiv target_increase bonus_increase)))
                 else if target_entity \<in> set groups \<and> wrt_entity = ''person'' then
                   group_branch self target wrt delta percent
                 else Inl ValueError)))"

section \<open>An example simulation\<close>

text \<open>
  A small population for the concrete evaluations: three persons, two benefit units
  (persons 0 and 1 in the first, person 2 in the second) and one household.  Its group
  populations reduce and project over the membership table, as the populations of
  openfisca-core do.
\<close>

definition members_of :: "nat list \<Rightarrow> nat \<Rightarrow> 'a list \<Rightarrow> 'a list" where
  "members_of ids g xs = map snd (filter (\<lambda>(i, x). i = g) (zip ids xs))"

definition group_reduce :: "('a \<Rightarrow> 'a \<Rightarrow> 'a) \<Rightarrow> 'a \<Rightarrow> nat list \<Rightarrow> nat \<Rightarrow> 'a list \<Rightarrow> 'a list" where
  "group_reduce f z ids n xs = map (\<lambda>g. foldr f (members_of ids g xs) z) [0..<n]"

definition bools_of :: "pyval \<Rightarrow> exc + bool list" where
  "bools_of a = (case a of BoolArr bs \<Rightarrow> Inr bs | _ \<Rightarrow> Inl TypeError)"

definition example_group :: "nat list \<Rightarrow> nat \<Rightarrow> group_population" where
  "example_group ids n = \<lparr>
     sum_p = (\<lambda>a. bind_exc (as_floats a) (\<lambda>xs. Inr (FloatArr (group_reduce fadd (Fin 0) ids n xs)))),
     any_p = (\<lambda>a. bind_exc (bools_of a) (\<lambda>bs. Inr (BoolArr (group_reduce (\<or>) False ids n bs)))),
     min_p = (\<lambda>a. bind_exc (as_floats a) (\<lambda>xs. Inr (FloatArr (group_reduce fmin PInf ids n xs)))),
     max_p = (\<lambda>a. bind_exc (as_floats a) (\<lambda>xs. Inr (FloatArr (group_reduce fmax NInf ids n xs)))),
     all_p = (\<lambda>a. bind_exc (bools_of a) (\<lambda>bs. Inr (BoolArr (group_reduce (\<and>) True ids n bs)))),
     value_from_first_person = (\<lambda>a. bind_exc (as_floats a) (\<lambda>xs.
        Inr (FloatArr (map (\<lambda>g. case members_of ids g xs of [] \<Rightarrow> Fin 0 | x # _ \<Rightarrow> x) [0..<n])))),
     project = (\<lambda>a. bind_exc (as_floats a) (\<lambda>xs.
        if list_all (\<lambda>i. i < length xs) ids then Inr (FloatArr (map (\<lambda>i. xs ! i) ids))
        else Inl (Exception ''IndexError''))),
     nb_persons = Inr (IntArr (map (\<lambda>g. int (length (filter (\<lambda>i. i = g) ids))) [0..<n])) \<rparr>"

definition example_variables :: "string \<rightharpoonup> variable" where
  "example_variables = map_of
     [(''employment_income'', \<lparr>value_type = VFloat, entity_key = ''person''\<rparr>),
      (''rent'', \<lparr>value_type = VFloat, entity_key = ''benunit''\<rparr>),
      (''in_work'', \<lparr>value_type = VBool, entity_key = ''person''\<rparr>),
      (''broken'', \<lparr>value_type = VFloat, entity_key = ''person''\<rparr>)]"

definition in_work_months :: "bool list list" where
  "in_work_months =
     [[True, True, True], [True, True, True], [True, True, True], [True, True, True],
      [True, True, True], [True, True, True], [True, True, True], [True, True, True],
      [True, True, True], [True, True, True], [True, True, True], [False, True, False]]"

definition count_true :: "bool list list \<Rightarrow> int list" where
  "count_true months = foldr (map2 (+)) (map (map (\<lambda>b. if b then 1 else 0)) months)
     (replicate (length (hd months)) 0)"

definition example_calculate :: "string \<Rightarrow> period \<Rightarrow> exc + pyval" where
  "example_calculate var period =
     (if var = ''employment_income'' then Inr (FloatArr [Fin (513 / 512), Fin 2000, Fin 0])
      else if var = ''rent'' then Inr (FloatArr [Fin 30, Fin 10])
      else if var = ''in_work'' then Inl ValueError
      else Inl (Exception ''direct''))"

definition example_calculate_add :: "string \<Rightarrow> period \<Rightarrow> exc + pyval" where
  "example_calculate_add var period =
     (if var = ''in_work'' then Inr (IntArr (count_true in_work_months))
      else Inl (Exception ''sum''))"

definition example_calculate_divide :: "string \<Rightarrow> period \<Rightarrow> exc + pyval" where
  "example_calculate_divide var period = Inl (Exception ''divide'')"

definition example_simulation :: simulation where
  "example_simulation = \<lparr>
     variables = example_variables,
     benunit_pop = example_group [0, 0, 1] 2,
     household_pop = example_group [0, 0, 0] 1,
     calculate = example_calculate,
     calculate_add = example_calculate_add,
     calculate_divide = example_calculate_divide \<rparr>"

definition example :: microsimulation where
  "example = Microsimulation example_simulation 2020
     [''person'' \<mapsto> FloatArr [Fin 1, Fin 1, Fin 1],
      ''benunit'' \<mapsto> FloatArr [Fin 1, Fin 1],
      ''household'' \<mapsto> FloatArr [Fin 1]] []"

text \<open>
  A dataset with an input that the model accepts and one that it rejects at two periods;
  the example model keeps the inputs it was given.
\<close>

definition known_inputs :: "string list" where
  "known_inputs = [''employment_income'', ''rent'']"

definition example_set_input ::
  "((string \<times> string) \<times> pyval) list \<Rightarrow> string \<Rightarrow> string \<Rightarrow> pyval
     \<Rightarrow> exc + ((string \<times> string) \<times> pyval) list" where
  "example_set_input model variable period values =
     (if variable \<in> set known_inputs then Inr (((variable, period), values) # model)
      else Inl (Exception ''VariableNotFoundError''))"

definition example_build :: "dataset \<Rightarrow> exc + ((string \<times> string) \<times> pyval) list" where
  "example_build data = Inr []"

definition example_data :: dataset where
  "example_data =
     [(''employment_income'', [(''2020'', FloatArr [Fin 1000, Fin 2000, Fin 0])]),
      (''P_person_id'', [(''2020'', IntArr [0, 1, 2]), (''2021'', IntArr [0, 1, 2])])]"


text \<open>A parameter tree and the environment of a benefit-unit formula over two units.\<close>

definition example_basic_income :: param where
  "example_basic_income =
     Node [''phase_out'' \<mapsto> Node [''household'' \<mapsto>
       Node [''threshold'' \<mapsto> Leaf (Fin 1000), ''rate'' \<mapsto> Leaf (Fin (5 / 100))]]]"

definition example_parameters :: param where
  "example_parameters =
     Node [''benefit'' \<mapsto> Node [''pension_credit'' \<mapsto> Node [''takeup'' \<mapsto> Leaf (Fin (7 / 10))]],
           ''contrib'' \<mapsto> Node [''ubi_center'' \<mapsto> Node [''basic_income'' \<mapsto> example_basic_income]]]"

definition example_benunit :: formula_env where
  "example_benunit = \<lparr>
     call = (\<lambda>name period.
       if name = ''claims_all_entitled_benefits'' then Inr (BoolArr [False, False])
       else Inl (Exception ''VariableNotFoundError'')),
     parameters = (\<lambda>period. Inr example_parameters),
     aggr = (\<lambda>period names. Inr (FloatArr [Fin 0, Fin 0])),
     random = Inr (FloatArr [Fin (9 / 10), Fin (8 / 10)]),
     household_sum = (\<lambda>a. Inl AttributeError) \<rparr>"


text \<open>
  The environment of a person formula over the three persons: persons 0 and 1 share a
  household whose remaining basic income is positive, person 2 is alone in a household
  whose remaining basic income is zero.
\<close>

definition example_person :: formula_env where
  "example_person = \<lparr>
     call = (\<lambda>name period.
       if name = ''total_income'' then Inr (FloatArr [Fin 1000, Fin 2000, Fin 500])
       else if name = ''bi_maximum'' then Inr (FloatArr [Fin 120, Fin 100, Fin 50])
       else if name = ''bi_individual_phaseout'' then Inr (FloatArr [Fin 20, Fin 0, Fin 50])
       else Inl (Exception ''VariableNotFoundError'')),
     parameters = (\<lambda>period. Inr example_parameters),
     aggr = (\<lambda>period names. Inl (Exception ''VariableNotFoundError'')),
     random = Inl AttributeError,
     household_sum = (\<lambda>a. bind_exc (sum_p (example_group [0, 0, 1] 2) a)
                                (project (example_group [0, 0, 1] 2))) \<rparr>"

section \<open>Notions used in the statements\<close>

definition entities :: "string list" where
  "entities = [''person'', ''benunit'', ''household'']"

definition group_pop :: "simulation \<Rightarrow> string \<Rightarrow> group_population" where
  "group_pop sim key = (if key = ''benunit'' then benunit_pop sim else household_pop sim)"

fun first_success :: "(exc + 'a) list \<Rightarrow> 'a option" where
  "first_success [] = None"
| "first_success (Inr a # rest) = Some a"
| "first_success (Inl e # rest) = first_success rest"

definition resolution_by_priority :: "(exc + 'a) list \<Rightarrow> exc + 'a" where
  "resolution_by_priority attempts =
     (case first_success attempts of Some a \<Rightarrow> Inr a | None \<Rightarrow> hd attempts)"

definition pairs :: "dataset \<Rightarrow> (string \<times> string \<times> pyval) list" where
  "pairs data = concat (map (\<lambda>(variable, periods). map (\<lambda>(period, values). (variable, period, values)) periods) data)"

definition skipped_keys :: "(string \<Rightarrow> string \<Rightarrow> pyval \<Rightarrow> bool) \<Rightarrow> dataset \<Rightarrow> string list" where
  "skipped_keys bad data = map fst (filter (\<lambda>(variable, period, values). bad variable period values) (pairs data))"

definition reduction_factor :: "real \<Rightarrow> real \<Rightarrow> real \<Rightarrow> real \<Rightarrow> real" where
  "reduction_factor threshold rate household_income household_bi =
     (if household_bi > 0
      then min household_bi (rate * max (household_income - threshold) 0) / household_bi
      else 0)"

section \<open>Verified properties\<close>

lemma broadcast2_scalar_right: "broadcast2 f xs [y] = Inr (map (\<lambda>x. f x y) xs)"
  by (auto simp: broadcast2_def length_Suc_conv)

lemma broadcast2_scalar_left: "broadcast2 f [x] ys = Inr (map (f x) ys)"
  by (cases ys) (auto simp: broadcast2_def)

lemma broadcast2_same: "length xs = length ys \<Longrightarrow> broadcast2 f xs ys = Inr (map2 f xs ys)"
  by (simp add: broadcast2_def)

lemma np_ge_int: "np_ge (IntArr counts) k = Inr (BoolArr (map (\<lambda>c. k \<le> c) counts))"
  by (simp add: np_ge_def np_compare_def bind_exc_def broadcast2_scalar_right comp_def)

lemma calc_unfold:
  "calc self var period weighted m how dp =
     bind_exc (resolve (simulation self) var (period_or_year self period))
       (finish self var weighted m how)"
  by (simp add: calc_def)

lemma pop_project_group [simp]: "pop_project (GroupPopulation g) = project g"
  by (rule ext) (simp add: pop_project_def)

lemma pop_nb_persons_group [simp]: "pop_nb_persons (GroupPopulation g) = nb_persons g"
  by (simp add: pop_nb_persons_def)

text \<open>
  C8.  When source and target are the same entity of the simulation (person, benunit or
  household), \<^verbatim>\<open>map_to\<close> returns the array as it is, for every array and every value
  of \<^verbatim>\<open>how\<close>, also a value that the person-to-group direction rejects: \<^verbatim>\<open>how\<close> is
  neither validated nor applied.
\<close>

theorem map_to_identity:
  "e \<in> set entities \<Longrightarrow> map_to self arr e e how = Inr arr"
  by (subst map_to.simps) (auto simp: populations_def groups_def entities_def)

theorem map_to_identity_witness:
  "''household'' \<in> set entities
   \<and> map_to example (FloatArr [Fin 1, Fin 2]) ''household'' ''household'' (Some ''median'')
     = Inr (FloatArr [Fin 1, Fin 2])"
  using map_to_identity [of "''household''" example "FloatArr [Fin 1, Fin 2]" "Some ''median''"]
  by (simp add: entities_def)

lemma map_to_mean:
  "entity \<in> set groups \<Longrightarrow>
   map_to self arr entity ''person'' (Some ''mean'') =
     bind_exc (nb_persons (group_pop (simulation self) entity)) (\<lambda>n.
     bind_exc (np_divide arr n) (\<lambda>q. project (group_pop (simulation self) entity) q))"
  by (subst map_to.simps)
     (auto simp: populations_def groups_def group_pop_def truthy_def)

lemma map_to_sum:
  "target_entity \<in> set groups \<Longrightarrow>
   map_to self a ''person'' target_entity (Some ''sum'') =
     sum_p (group_pop (simulation self) target_entity) a"
  by (subst map_to.simps)
     (auto simp: populations_def groups_def group_pop_def truthy_def allowed_hows_def
        getattribute_def bind_exc_def)

text \<open>
  C6.  For every pair of entities of the simulation that is neither person to group, nor
  group to person, nor a pair of identical entities (benunit to household and household
  to benunit), \<^verbatim>\<open>map_to\<close> is the person-mediated two-hop transform, whatever \<^verbatim>\<open>how\<close>
  was passed: the array is divided by the person count of each source group, projected
  to the persons, and summed over the persons of each target group.  An exception of
  any of the four steps is the result.
\<close>

theorem map_to_two_hop:
  assumes "entity \<in> set entities" and "target_entity \<in> set entities"
    and "\<not> (entity = ''person'' \<and> target_entity \<in> set groups)"
    and "\<not> (entity \<in> set groups \<and> target_entity = ''person'')"
    and "entity \<noteq> target_entity"
  shows "map_to self arr entity target_entity how =
           bind_exc (nb_persons (group_pop (simulation self) entity)) (\<lambda>n.
           bind_exc (np_divide arr n) (\<lambda>mean.
           bind_exc (project (group_pop (simulation self) entity) mean) (\<lambda>persons.
             sum_p (group_pop (simulation self) target_entity) persons)))"
proof -
  from assms have g: "entity \<in> set groups" "target_entity \<in> set groups"
    by (auto simp: entities_def groups_def)
  have "map_to self arr entity target_entity how =
          bind_exc (map_to self arr entity ''person'' (Some ''mean'')) (\<lambda>a.
            map_to self a ''person'' target_entity (Some ''sum''))"
    using assms g by (subst map_to.simps) (auto simp: populations_def groups_def)
  then show ?thesis
    using g by (simp add: map_to_mean map_to_sum bind_exc_def split: sum.splits)
qed

theorem map_to_two_hop_witness:
  "map_to example (FloatArr [Fin 30, Fin 10]) ''benunit'' ''household'' (Some ''max'')
     = Inr (FloatArr [Fin 40])"
proof -
  have e: "''benunit'' \<in> set entities" "''household'' \<in> set entities"
    "\<not> (''benunit'' = ''person'' \<and> ''household'' \<in> set groups)"
    "\<not> (''benunit'' \<in> set groups \<and> ''household'' = ''person'')"
    "''benunit'' \<noteq> ''household''"
    by (simp_all add: entities_def)
  have "bind_exc (nb_persons (group_pop (simulation example) ''benunit'')) (\<lambda>n.
           bind_exc (np_divide (FloatArr [Fin 30, Fin 10]) n) (\<lambda>mean.
           bind_exc (project (group_pop (simulation example) ''benunit'') mean) (\<lambda>persons.
             sum_p (group_pop (simulation example) ''household'') persons)))
        = Inr (FloatArr [Fin 40])"
    by code_simp
  then show ?thesis
    using map_to_two_hop [OF e, of example "FloatArr [Fin 30, Fin 10]" "Some ''max''"] by simp
qed

lemma resolve_priority:
  assumes "\<And>n. direct_attempt sim var p \<noteq> Inl (BaseException n)"
  shows "resolve sim var p =
     resolution_by_priority [direct_attempt sim var p, sum_attempt sim var p, calculate_divide sim var p]"
proof (cases "direct_attempt sim var p")
  case (Inr a)
  then show ?thesis by (simp add: resolve_def resolution_by_priority_def)
next
  case (Inl e)
  with assms obtain n where "e = Exception n" by (cases e) auto
  with Inl show ?thesis
    by (cases "sum_attempt sim var p"; cases "calculate_divide sim var p")
       (simp_all add: resolve_def resolution_by_priority_def)
qed

text \<open>
  C1 (as the code has it).  \<^verbatim>\<open>calc\<close> resolves a request by the first attempt that
  succeeds, in the order direct formula, sum over subperiods, divide across subperiods,
  and continues with the post-processing of that one array.  When all three attempts
  fail, the exception that reaches the caller is the one of the first (direct) attempt:
  the handler re-raises the \<^verbatim>\<open>e\<close> it caught first.  The hypothesis excludes a direct
  attempt that ends in a \<^verbatim>\<open>BaseException\<close> outside \<^verbatim>\<open>Exception\<close>, which no fallback
  follows.
\<close>

theorem calc_priority_order:
  assumes "\<And>n. direct_attempt (simulation self) var (period_or_year self period) \<noteq> Inl (BaseException n)"
  shows "calc self var period weighted m how dp =
     bind_exc (resolution_by_priority
         [direct_attempt (simulation self) var (period_or_year self period),
          sum_attempt (simulation self) var (period_or_year self period),
          calculate_divide (simulation self) var (period_or_year self period)])
       (finish self var weighted m how)"
  using resolve_priority [OF assms] by (simp add: calc_unfold)

lemma example_attempts:
  "direct_attempt example_simulation ''broken'' (Year 2020) = Inl (Exception ''direct'')"
  "sum_attempt example_simulation ''broken'' (Year 2020) = Inl (Exception ''sum'')"
  "calculate_divide example_simulation ''broken'' (Year 2020) = Inl (Exception ''divide'')"
  by code_simp+

theorem calc_priority_order_witness:
  "calc example ''broken'' None True None None 2 = Inl (Exception ''direct'')"
proof -
  have p: "period_or_year example None = Year 2020" "simulation example = example_simulation"
    by (simp_all add: period_or_year_def example_def)
  have "\<And>n. direct_attempt (simulation example) ''broken'' (period_or_year example None)
          \<noteq> Inl (BaseException n)"
    by (simp add: p example_attempts)
  from calc_priority_order [OF this, where weighted=True and m=None and how=None and dp=2]
  show ?thesis
    by (simp add: p example_attempts resolution_by_priority_def bind_exc_def)
qed

text \<open>
  The claim as stated, that the failure of the final (divide) attempt is surfaced, fails
  on a variable whose three attempts raise three different exceptions.
\<close>

theorem calc_final_failure_counterexample:
  "direct_attempt example_simulation ''broken'' (Year 2020) = Inl (Exception ''direct'')
   \<and> sum_attempt example_simulation ''broken'' (Year 2020) = Inl (Exception ''sum'')
   \<and> calculate_divide example_simulation ''broken'' (Year 2020) = Inl (Exception ''divide'')
   \<and> calc example ''broken'' (Some (Year 2020)) True None None 2 \<noteq> Inl (Exception ''divide'')"
  by (simp add: example_attempts calc_unfold resolve_def period_or_year_def example_def bind_exc_def)


text \<open>
  A boolean variable whose direct attempt fails and whose sum over subperiods succeeds
  resolves to the comparison of the summed counts with the literal 52, whatever the
  number of subperiods that were summed.
\<close>

lemma resolve_bool_sum_threshold:
  assumes "variables sim var = Some md" and "value_type md = VBool"
    and "calculate sim var p = Inl (Exception n)"
    and "calculate_add sim var p = Inr (IntArr counts)"
  shows "resolve sim var p = Inr (BoolArr (map (\<lambda>c. 52 \<le> c) counts))"
  using assms
  by (simp add: resolve_def direct_attempt_def sum_attempt_def bind_exc_def np_ge_int)

text \<open>
  C2 (what the code does).  The claim is that a boolean variable summed over the
  subperiods of the year is true exactly when the count reaches the number of
  subperiods.  In the example \<^verbatim>\<open>in_work\<close> is a monthly indicator, held for 12 months;
  the first and the third person are in work in 11 of them and the second in all 12.
  Requested for the year, unweighted or weighted, it is false for all three: for the
  second person the count reaches the number of subperiods and the result is false all
  the same, since 12 is less than 52.
\<close>

theorem calc_bool_sum_monthly:
  "length in_work_months = 12
   \<and> calculate_add example_simulation ''in_work'' (Year 2020) = Inr (IntArr [11, 12, 11])
   \<and> calc example ''in_work'' None False None None 2 = Inr (Raw (BoolArr [False, False, False]))
   \<and> calc example ''in_work'' None True None None 2
       = Inr (MicroSeries (BoolArr [False, False, False]) (FloatArr [Fin 1, Fin 1, Fin 1]))"
  by code_simp


lemma example_income:
  "variables (simulation example) ''employment_income'' = Some \<lparr>value_type = VFloat, entity_key = ''person''\<rparr>"
  "resolve (simulation example) ''employment_income'' (period_or_year example None)
     = Inr (FloatArr [Fin (513 / 512), Fin 2000, Fin 0])"
  by code_simp+




text \<open>
  C4 (as the code has it).  For a weighted call of \<^verbatim>\<open>calc\<close> on a person-level variable
  with \<^verbatim>\<open>map_to\<close> a group entity (benunit or household), once the value is resolved and
  post-processed, a non-empty \<^verbatim>\<open>how\<close> outside the allowed set of operators raises
  ValueError.  The unweighted call with the same arguments returns the array: it
  returns before \<^verbatim>\<open>map_to\<close> and \<^verbatim>\<open>how\<close> are read.
\<close>

theorem calc_map_to_validates_how:
  assumes "resolve (simulation self) var (period_or_year self period) = Inr arr0"
    and "postprocess (simulation self) var arr0 = Inr (md, arr)"
    and "entity_key md = ''person''"
    and "target \<in> set groups"
    and "h \<noteq> []" and "h \<notin> set allowed_hows"
  shows "calc self var period True (Some target) (Some h) dp = Inl ValueError
         \<and> calc self var period False (Some target) (Some h) dp = Inr (Raw arr)"
proof -
  have "map_to self arr ''person'' target (Some h) = Inl ValueError"
    using assms(4-6)
    by (subst map_to.simps) (auto simp: populations_def groups_def truthy_def)
  moreover have "truthy (Some target)"
    using assms(4) by (auto simp: truthy_def groups_def)
  ultimately show ?thesis
    using assms(1-3) by (simp add: calc_unfold finish_def deliver_def bind_exc_def)
qed

lemma example_income_post:
  "postprocess (simulation example) ''employment_income'' (FloatArr [Fin (513 / 512), Fin 2000, Fin 0])
     = Inr (\<lparr>value_type = VFloat, entity_key = ''person''\<rparr>, FloatArr [Fin 1, Fin 2000, Fin 0])"
  by code_simp

theorem calc_map_to_validates_how_witness:
  "''household'' \<in> set groups \<and> ''median'' \<noteq> [] \<and> ''median'' \<notin> set allowed_hows
   \<and> calc example ''employment_income'' None True (Some ''household'') (Some ''median'') 2
     = Inl ValueError
   \<and> calc example ''employment_income'' None False (Some ''household'') (Some ''median'') 2
     = Inr (Raw (FloatArr [Fin 1, Fin 2000, Fin 0]))"
proof -
  have h: "entity_key \<lparr>value_type = VFloat, entity_key = ''person''\<rparr> = ''person''"
    "''household'' \<in> set groups" "''median'' \<noteq> []" "''median'' \<notin> set allowed_hows"
    by (simp_all add: groups_def allowed_hows_def)
  from calc_map_to_validates_how [OF example_income(2) example_income_post h, where dp=2]
  show ?thesis using h by simp
qed

text \<open>
  The claim as stated covers every call with \<^verbatim>\<open>map_to\<close> and every transform direction.
  With identical source and target entity an unsupported \<^verbatim>\<open>how\<close> raises nothing, and
  the series is returned; from a benefit unit to a household it raises nothing and the
  two-hop transform is applied; and an unweighted call towards a group entity with an
  unsupported \<^verbatim>\<open>how\<close> raises nothing either, and the array is returned.
\<close>

theorem calc_map_to_how_counterexample:
  "''median'' \<notin> set allowed_hows
   \<and> calc example ''employment_income'' None True (Some ''person'') (Some ''median'') 2
     = Inr (MicroSeries (FloatArr [Fin 1, Fin 2000, Fin 0]) (FloatArr [Fin 1, Fin 1, Fin 1]))
   \<and> calc example ''rent'' None True (Some ''household'') (Some ''median'') 2
     = Inr (MicroSeries (FloatArr [Fin 40]) (FloatArr [Fin 1]))
   \<and> calc example ''employment_income'' None False (Some ''household'') (Some ''median'') 2
     = Inr (Raw (FloatArr [Fin 1, Fin 2000, Fin 0]))"
  by code_simp
lemma set_periods_skipped:
  assumes "\<And>m v p x. isl (set_input m v p x) = bad v p x"
  shows "snd (set_periods set_input variable periods (model, skipped)) =
         skipped @ map (\<lambda>_. variable) (filter (\<lambda>(p, x). bad variable p x) periods)"
proof (induction periods arbitrary: model skipped)
  case Nil
  then show ?case by simp
next
  case (Cons a periods)
  obtain p x where a: "a = (p, x)" by (cases a)
  show ?case
  proof (cases "set_input model variable p x")
    case (Inl e)
    then have "bad variable p x" using assms [of model variable p x] by simp
    with Inl a Cons.IH show ?thesis by simp
  next
    case (Inr m')
    then have "\<not> bad variable p x" using assms [of model variable p x] by simp
    with Inr a Cons.IH show ?thesis by simp
  qed
qed

lemma set_variables_skipped:
  assumes "\<And>m v p x. isl (set_input m v p x) = bad v p x"
  shows "snd (set_variables set_input data (model, skipped)) = skipped @ skipped_keys bad data"
proof (induction data arbitrary: model skipped)
  case Nil
  then show ?case by (simp add: skipped_keys_def pairs_def)
next
  case (Cons a data)
  obtain v ps where a: "a = (v, ps)" by (cases a)
  obtain m' sk' where st: "set_periods set_input v ps (model, skipped) = (m', sk')"
    by (cases "set_periods set_input v ps (model, skipped)")
  have sk': "sk' = skipped @ map (\<lambda>_. v) (filter (\<lambda>(p, x). bad v p x) ps)"
    using set_periods_skipped [where set_input=set_input and bad=bad, OF assms, where variable=v and periods=ps and model=model and skipped=skipped] st by simp
  have "map fst (filter (\<lambda>(variable, period, values). bad variable period values)
          (map (\<lambda>(period, values). (v, period, values)) ps))
        = map (\<lambda>_. v) (filter (\<lambda>(p, x). bad v p x) ps)"
    by (induction ps) auto
  then show ?case
    using Cons.IH [of m' sk'] a st sk' by (simp add: skipped_keys_def pairs_def)
qed

text \<open>
  Once the model is built, loading cannot fail, whatever \<^verbatim>\<open>set_input\<close> raises.  When
  the entries that cannot be loaded are those of a predicate \<^verbatim>\<open>bad\<close>, no warning is
  emitted if there is none, and otherwise exactly one, whose text is made from the
  number of skipped entries only.
\<close>

lemma load_dataset_returns:
  assumes "build data = Inr model"
    and "\<And>m v p x. isl (set_input m v p x) = bad v p x"
  shows "load_dataset build set_input data =
           Inr (fst (set_variables set_input data (model, [])),
                if skipped_keys bad data = [] then []
                else [''Incomplete initialisation: skipped ''
                      @ str_nat (length (skipped_keys bad data)) @ '' variables:''])"
proof -
  obtain m' sk where st: "set_variables set_input data (model, []) = (m', sk)"
    by (cases "set_variables set_input data (model, [])")
  have "sk = skipped_keys bad data"
    using set_variables_skipped [where set_input=set_input and bad=bad, OF assms(2), where data=data and model=model and skipped="[]"] st by simp
  then show ?thesis
    using assms(1) st by (simp add: load_dataset_def bind_exc_def incomplete_warning_def)
qed

text \<open>
  C7 (what the code does).  The claim is that loading is non-fatal and that a single
  batch warning lists the skipped keys.  In the example the model rejects the key
  \<^verbatim>\<open>P_person_id\<close> at both of its periods.  Loading returns the model with the one input
  that was accepted, and one warning is emitted; the names of the skipped entries were
  collected, but the text of the warning ends after the colon: it gives the count 2,
  of entries where it says variables, and the skipped key does not occur in it.
\<close>

theorem load_dataset_warning_omits_keys:
  "load_dataset example_build example_set_input example_data =
      Inr ([((''employment_income'', ''2020''), FloatArr [Fin 1000, Fin 2000, Fin 0])],
           [''Incomplete initialisation: skipped 2 variables:''])
   \<and> skipped_keys (\<lambda>v p x. v \<notin> set known_inputs) example_data = [''P_person_id'', ''P_person_id'']
   \<and> \<not> sublist ''P_person_id'' ''Incomplete initialisation: skipped 2 variables:''"
  by code_simp

lemma np_compare_scalar:
  "np_compare f (FloatArr xs) (IntArr [k]) = Inr (BoolArr (map (\<lambda>x. f x (Fin (real_of_int k))) xs))"
  by (simp add: np_compare_def bind_exc_def broadcast2_scalar_right)

lemma np_compare_scalar_float:
  "np_compare f (FloatArr xs) (FloatArr [y]) = Inr (BoolArr (map (\<lambda>x. f x y) xs))"
  by (simp add: np_compare_def bind_exc_def broadcast2_scalar_right)

lemma np_or_true: "np_or (BoolArr [True]) (BoolArr bs) = Inr (BoolArr (replicate (length bs) True))"
  by (simp add: np_or_def bind_exc_def broadcast2_scalar_left map_replicate_const [symmetric])

lemma map2_or_true:
  "length ys = n \<Longrightarrow> map2 (\<or>) (replicate n True) ys = replicate n True"
  by (induction ys arbitrary: n) auto

lemma np_or_all_true:
  "length ys = n \<Longrightarrow> np_or (BoolArr (replicate n True)) (BoolArr ys) = Inr (BoolArr (replicate n True))"
  by (simp add: np_or_def bind_exc_def broadcast2_same map2_or_true)

text \<open>
  C9.  Whenever the four things the formula of \<^verbatim>\<open>would_claim_PC\<close> reads are there (the
  reported amounts, the take-up parameter, the random draws and the boolean variable
  \<^verbatim>\<open>claims_all_entitled_benefits\<close>, one value per benefit unit), the formula returns
  True for every benefit unit, whatever their values: the leading literal \<^verbatim>\<open>True\<close>
  absorbs the three other disjuncts.
\<close>

theorem would_claim_PC_always_true:
  assumes "aggr benunit period [''pension_credit_reported''] = Inr (FloatArr amounts)"
    and "parameters benunit period = Inr params"
    and "path params [''benefit'', ''pension_credit'', ''takeup''] = Inr (Leaf rate)"
    and "random benunit = Inr (FloatArr draws)"
    and "call benunit ''claims_all_entitled_benefits'' period = Inr (BoolArr claims)"
    and "length amounts = length claims" and "length draws = length claims"
  shows "would_claim_PC benunit period = Inr (BoolArr (replicate (length claims) True))"
  using assms
  by (simp add: would_claim_PC_def bind_exc_def np_compare_scalar np_compare_scalar_float
      np_or_true np_or_all_true del: path.simps)

theorem would_claim_PC_always_true_witness:
  "would_claim_PC example_benunit (Year 2020) = Inr (BoolArr [True, True])"
proof -
  have h: "aggr example_benunit (Year 2020) [''pension_credit_reported''] = Inr (FloatArr [Fin 0, Fin 0])"
    "parameters example_benunit (Year 2020) = Inr example_parameters"
    "path example_parameters [''benefit'', ''pension_credit'', ''takeup''] = Inr (Leaf (Fin (7 / 10)))"
    "random example_benunit = Inr (FloatArr [Fin (9 / 10), Fin (8 / 10)])"
    "call example_benunit ''claims_all_entitled_benefits'' (Year 2020) = Inr (BoolArr [False, False])"
    "length [Fin 0, Fin 0] = length [False, False]"
    "length [Fin (9 / 10), Fin (8 / 10)] = length [False, False]"
    by (simp_all add: example_benunit_def example_parameters_def bind_exc_def)
  from would_claim_PC_always_true [OF h] show ?thesis
    by (simp add: numeral_2_eq_2)
qed

text \<open>
  C3 (what the code does).  On a \<^verbatim>\<open>Microsimulation\<close> as its constructor leaves it, with
  no cached sibling, \<^verbatim>\<open>deriv\<close> for a target and a source variable of the same entity
  raises AttributeError: the sibling simulation is never constructed, and no derivative
  is returned, for either value of \<^verbatim>\<open>percent\<close>.
\<close>

theorem deriv_same_entity_raises:
  assumes "bonus_sims self = []"
    and "variables (simulation self) target = Some target_variable"
    and "variables (simulation self) wrt = Some wrt_variable"
    and "entity_key target_variable = entity_key wrt_variable"
  shows "deriv group_branch self target wrt delta percent = Inl AttributeError"
  using assms by (simp add: deriv_def)

theorem deriv_same_entity_raises_witness:
  "bonus_sims example = []
   \<and> deriv (\<lambda>self target wrt delta percent. Inl ValueError) example ''in_work'' ''employment_income'' 100 False
      = Inl AttributeError"
proof -
  have h: "bonus_sims example = []"
    "variables (simulation example) ''in_work'' = Some \<lparr>value_type = VBool, entity_key = ''person''\<rparr>"
    "variables (simulation example) ''employment_income'' = Some \<lparr>value_type = VFloat, entity_key = ''person''\<rparr>"
    "entity_key \<lparr>value_type = VBool, entity_key = ''person''\<rparr> = entity_key \<lparr>value_type = VFloat, entity_key = ''person''\<rparr>"
    by (simp_all add: example_def example_simulation_def example_variables_def)
  from deriv_same_entity_raises [OF h] h(1) show ?thesis by simp
qed

lemma fin_ops [simp]:
  "fsub (Fin a) (Fin b) = Fin (a - b)"
  "fmax (Fin a) (Fin b) = Fin (max a b)"
  "fmin (Fin a) (Fin b) = Fin (min a b)"
  "fgt (Fin a) (Fin b) = (a > b)"
  by (auto simp: fsub_def fmax_def fmin_def fgt_def)

lemma np_arith_same:
  "length xs = length ys \<Longrightarrow>
   np_arith f (FloatArr xs) (FloatArr ys) = Inr (FloatArr (map2 f xs ys))"
  by (simp add: np_arith_def bind_exc_def broadcast2_same)

lemma np_arith_scalar_right:
  "np_arith f (FloatArr xs) (FloatArr [y]) = Inr (FloatArr (map (\<lambda>x. f x y) xs))"
  by (simp add: np_arith_def bind_exc_def broadcast2_scalar_right)

lemma np_arith_scalar_int:
  "np_arith f (FloatArr xs) (IntArr [k]) = Inr (FloatArr (map (\<lambda>x. f x (Fin (real_of_int k))) xs))"
  by (simp add: np_arith_def bind_exc_def broadcast2_scalar_right)

lemma np_arith_scalar_left:
  "np_arith f (FloatArr [x]) (FloatArr ys) = Inr (FloatArr (map (f x) ys))"
  by (simp add: np_arith_def bind_exc_def broadcast2_scalar_left)

lemma np_where_scalar:
  "length cs = length qs \<Longrightarrow>
   np_where (BoolArr cs) (FloatArr qs) (IntArr [k]) =
     Inr (FloatArr (map2 (\<lambda>c q. if c then q else Fin (real_of_int k)) cs qs))"
  by (simp add: np_where_def bind_exc_def broadcast2_scalar_right broadcast2_same
      zip_map2 split_def)

lemma reduction_factor_le_one: "reduction_factor threshold rate h b \<le> 1"
  by (simp add: reduction_factor_def)

text \<open>
  C10.  When the variables and parameters that \<^verbatim>\<open>bi_household_phaseout\<close> reads are
  there and finite, one value per person, the formula returns a finite value for every
  person, also where the household's summed remaining basic income is zero: the
  quotient computed there (\<^verbatim>\<open>nan\<close> or \<^verbatim>\<open>inf\<close>) is replaced by 0 and does not reach
  the result.  The reduction factor is the capped deduction over the household's
  remaining basic income where that is positive and 0 elsewhere, and it is at most 1.
\<close>

theorem bi_household_phaseout_guarded:
  assumes income: "call person ''total_income'' period = Inr (FloatArr (map Fin income))"
    and hh_income: "household_sum person (FloatArr (map Fin income)) = Inr (FloatArr (map Fin hh_income))"
    and params: "parameters person period = Inr params"
    and bi: "path params [''contrib'', ''ubi_center'', ''basic_income''] = Inr bi"
    and max_bi: "call person ''bi_maximum'' period = Inr (FloatArr (map Fin max_bi))"
    and indiv: "call person ''bi_individual_phaseout'' period = Inr (FloatArr (map Fin indiv))"
    and hh_bi: "household_sum person (FloatArr (map Fin (map2 (-) max_bi indiv))) = Inr (FloatArr (map Fin hh_bi))"
    and thr: "path bi [''phase_out'', ''household'', ''threshold''] = Inr (Leaf (Fin threshold))"
    and rate: "path bi [''phase_out'', ''household'', ''rate''] = Inr (Leaf (Fin rate))"
    and len: "length max_bi = length indiv" "length hh_income = length indiv" "length hh_bi = length indiv"
  shows "percent_reduction person period =
           Inr (FloatArr (map Fin (map2 (reduction_factor threshold rate) hh_income hh_bi)),
                FloatArr (map Fin (map2 (-) max_bi indiv)))
         \<and> bi_household_phaseout person period =
           Inr (FloatArr (map Fin (map2 (*) (map2 (reduction_factor threshold rate) hh_income hh_bi)
                                      (map2 (-) max_bi indiv))))
         \<and> list_all (\<lambda>p. p \<le> 1) (map2 (reduction_factor threshold rate) hh_income hh_bi)"
proof -
  let ?rem = "map2 (-) max_bi indiv"
  let ?ps = "map2 (reduction_factor threshold rate) hh_income hh_bi"
  have rem: "remaining_bi person period = Inr (FloatArr (map Fin ?rem))"
    using max_bi indiv len
    by (simp add: remaining_bi_def bind_exc_def np_arith_same zip_map_map split_def comp_def)
  have pr: "percent_reduction person period = Inr (FloatArr (map Fin ?ps), FloatArr (map Fin ?rem))"
    using income hh_income params bi rem hh_bi thr rate len
    apply (simp add: percent_reduction_def bind_exc_def np_arith_same np_arith_scalar_right
        np_arith_scalar_int np_arith_scalar_left np_compare_scalar np_divide_def np_where_scalar
        zip_map_map zip_map1 zip_map2 split_def comp_def del: path.simps)
    apply (rule nth_equalityI)
     apply (auto simp: reduction_factor_def)
    done
  have "np_arith fmul (FloatArr (map Fin ?ps)) (FloatArr (map Fin ?rem))
          = Inr (FloatArr (map Fin (map2 (*) ?ps ?rem)))"
    using len by (simp add: np_arith_same zip_map_map split_def comp_def)
  with pr have "bi_household_phaseout person period = Inr (FloatArr (map Fin (map2 (*) ?ps ?rem)))"
    by (simp add: bi_household_phaseout_def bind_exc_def)
  moreover have "list_all (\<lambda>p. p \<le> 1) ?ps"
    by (simp add: list_all_iff reduction_factor_le_one split_def)
  ultimately show ?thesis using pr by simp
qed

lemma example_person_reads:
  "call example_person ''total_income'' (Year 2020) = Inr (FloatArr (map Fin [1000, 2000, 500]))"
  "household_sum example_person (FloatArr (map Fin [1000, 2000, 500]))
     = Inr (FloatArr (map Fin [3000, 3000, 500]))"
  "call example_person ''bi_maximum'' (Year 2020) = Inr (FloatArr (map Fin [120, 100, 50]))"
  "call example_person ''bi_individual_phaseout'' (Year 2020) = Inr (FloatArr (map Fin [20, 0, 50]))"
  "household_sum example_person (FloatArr (map Fin (map2 (-) [120, 100, 50] [20, 0, 50])))
     = Inr (FloatArr (map Fin [200, 200, 0]))"
  by code_simp+

lemma example_person_parameters:
  "parameters example_person (Year 2020) = Inr example_parameters"
  "path example_parameters [''contrib'', ''ubi_center'', ''basic_income''] = Inr example_basic_income"
  "path example_basic_income [''phase_out'', ''household'', ''threshold''] = Inr (Leaf (Fin 1000))"
  "path example_basic_income [''phase_out'', ''household'', ''rate''] = Inr (Leaf (Fin (5 / 100)))"
  by (simp_all add: example_person_def example_parameters_def example_basic_income_def bind_exc_def)

text \<open>
  In the example the third person's household has no remaining basic income: the
  quotient there is \<^verbatim>\<open>nan\<close>, the factor is 0 and the phase-out is 0.
\<close>

theorem bi_household_phaseout_guarded_witness:
  "percent_reduction example_person (Year 2020)
     = Inr (FloatArr [Fin (1 / 2), Fin (1 / 2), Fin 0], FloatArr [Fin 100, Fin 100, Fin 0])
   \<and> bi_household_phaseout example_person (Year 2020) = Inr (FloatArr [Fin 50, Fin 50, Fin 0])
   \<and> np_divide (FloatArr [Fin 100, Fin 100, Fin 0]) (FloatArr [Fin 200, Fin 200, Fin 0])
       = Inr (FloatArr [Fin (1 / 2), Fin (1 / 2), NaN])"
proof -
  have q: "np_divide (FloatArr [Fin 100, Fin 100, Fin 0]) (FloatArr [Fin 200, Fin 200, Fin 0])
       = Inr (FloatArr [Fin (1 / 2), Fin (1 / 2), NaN])"
    by code_simp
  have len: "length [120, 100, 50 :: real] = length [20, 0, 50 :: real]"
    "length [3000, 3000, 500 :: real] = length [20, 0, 50 :: real]"
    "length [200, 200, 0 :: real] = length [20, 0, 50 :: real]"
    by simp_all
  from bi_household_phaseout_guarded [OF example_person_reads(1,2) example_person_parameters(1,2)
      example_person_reads(3,4,5) example_person_parameters(3,4) len]
  show ?thesis using q by (simp add: reduction_factor_def)
qed


end
